theory Spec2Isabelle
  imports Complex_Main
begin

section \<open>Numbers\<close>

text \<open>
  Every number of the program is a JavaScript \<open>number\<close>. The model takes them as
  mathematical reals and \<open>Math.exp\<close> as the real exponential; rounding is not modelled
  (the sample times \<open>i / 2\<close> are exact in binary floating point). The loop counter of the
  generator, which only takes the values 0..97, is a \<open>nat\<close>.
\<close>

subsection \<open>constants.ts\<close>

definition TOTAL_HOURS :: nat where
  "TOTAL_HOURS = 48"

definition STEPS_PER_HOUR :: nat where
  "STEPS_PER_HOUR = 2"

definition MAX_TIME :: real where
  "MAX_TIME = real TOTAL_HOURS"

section \<open>Playback state (App.tsx)\<close>

datatype tab = Simulation | Map

text \<open>
  The state of the \<open>App\<close> component: the three \<open>useState\<close> cells of the playback
  (\<open>SimulationState\<close> in types.ts), the active tab, and the \<open>lastTimeRef\<close> cell, whose
  \<open>undefined\<close> is \<open>None\<close>. The handle kept in \<open>requestRef\<close> only serves to cancel a
  pending frame; the frames themselves are the calls of \<open>animate\<close>.
\<close>

record app_state =
  currentTime :: real
  isPlaying :: bool
  playbackSpeed :: real
  activeTab :: tab
  lastTimeRef :: "real option"

definition initialState :: app_state where
  "initialState =
     \<lparr>currentTime = 0, isPlaying = False, playbackSpeed = 1,
      activeTab = Simulation, lastTimeRef = None\<rparr>"

text \<open>\<open>handleSeek\<close>: \<open>setCurrentTime(time)\<close>, nothing else.\<close>

definition handleSeek :: "real \<Rightarrow> app_state \<Rightarrow> app_state" where
  "handleSeek tm s = s\<lparr>currentTime := tm\<rparr>"

definition togglePlay :: "app_state \<Rightarrow> app_state" where
  "togglePlay s = s\<lparr>isPlaying := \<not> isPlaying s\<rparr>"

text \<open>The updater passed to \<open>setPlaybackSpeed\<close>: \<open>prev => prev >= 4 ? 1 : prev * 2\<close>.\<close>

definition nextSpeed :: "real \<Rightarrow> real" where
  "nextSpeed prev = (if prev \<ge> 4 then 1 else prev * 2)"

definition handleSpeedChange :: "app_state \<Rightarrow> app_state" where
  "handleSpeedChange s = s\<lparr>playbackSpeed := nextSpeed (playbackSpeed s)\<rparr>"

definition handleReset :: "app_state \<Rightarrow> app_state" where
  "handleReset s = s\<lparr>isPlaying := False, currentTime := 0\<rparr>"

text \<open>
  \<open>animate(time)\<close>, one frame at the timestamp \<open>tm\<close> (milliseconds). Without a previous
  timestamp nothing advances; with one, \<open>deltaTime\<close> is the elapsed time in seconds and the
  updater of \<open>setCurrentTime\<close> runs on the current \<open>currentTime\<close>. In both cases the
  timestamp is stored in \<open>lastTimeRef\<close>.
\<close>

definition animate :: "real \<Rightarrow> app_state \<Rightarrow> app_state" where
  "animate tm s =
     (let s1 =
        (case lastTimeRef s of
           None \<Rightarrow> s
         | Some lastTime \<Rightarrow>
             (let deltaTime = (tm - lastTime) / 1000;
                  nextTime = currentTime s + (deltaTime * 2 * playbackSpeed s)
              in if nextTime \<ge> MAX_TIME
                 then s\<lparr>isPlaying := False, currentTime := MAX_TIME\<rparr>
                 else s\<lparr>currentTime := nextTime\<rparr>))
      in s1\<lparr>lastTimeRef := Some tm\<rparr>)"

text \<open>The browser calls \<open>animate\<close> once per frame, at successive timestamps.\<close>

fun run_frames :: "real list \<Rightarrow> app_state \<Rightarrow> app_state" where
  "run_frames [] s = s"
| "run_frames (tm # tms) s = run_frames tms (animate tm s)"

text \<open>The clamp of the specification, \<open>clamp(t, lo, hi)\<close>, written from its words.\<close>

definition spec_clamp :: "real \<Rightarrow> real \<Rightarrow> real \<Rightarrow> real" where
  "spec_clamp t lo hi = (if t < lo then lo else if t > hi then hi else t)"

section \<open>Series generator (constants.ts)\<close>

record HydroDataPoint =
  time :: real
  label :: string
  stZacharie :: real
  roquevaire :: real
  aubagne :: real
  marseille :: real

subsection \<open>The pulses\<close>

text \<open>
  The eight pulses of the loop body, as functions of the sample time \<open>t\<close>:
  \<open>amplitude * Math.exp(-Math.pow(t - peak, 2) / width)\<close>, with \<open>Math.exp\<close> the real
  exponential.
\<close>

definition runoffMarseille :: "real \<Rightarrow> real" where
  "runoffMarseille t = 0.4 * exp (- ((t - 6) ^ 2) / 8)"

definition runoffAubagne :: "real \<Rightarrow> real" where
  "runoffAubagne t = 0.5 * exp (- ((t - 7) ^ 2) / 8)"

definition runoffRoquevaire :: "real \<Rightarrow> real" where
  "runoffRoquevaire t = 0.6 * exp (- ((t - 8) ^ 2) / 8)"

definition runoffStZacharie :: "real \<Rightarrow> real" where
  "runoffStZacharie t = 0.1 * exp (- ((t - 9) ^ 2) / 8)"

definition karstStZacharie :: "real \<Rightarrow> real" where
  "karstStZacharie t = 1.2 * exp (- ((t - 16) ^ 2) / 15)"

definition karstRoquevaire :: "real \<Rightarrow> real" where
  "karstRoquevaire t = 1.3 * exp (- ((t - 17.5) ^ 2) / 18)"

definition karstAubagne :: "real \<Rightarrow> real" where
  "karstAubagne t = 0.9 * exp (- ((t - 19) ^ 2) / 20)"

definition karstMarseille :: "real \<Rightarrow> real" where
  "karstMarseille t = 0.4 * exp (- ((t - 21) ^ 2) / 25)"

subsection \<open>The label\<close>

text \<open>
  JavaScript's \<open>x % y\<close> on numbers: the remainder of the division truncated towards zero,
  with the sign of \<open>x\<close>. The program only divides by 24 and by 1; for \<open>y = 0\<close>
  JavaScript gives \<open>NaN\<close>, which the model does not represent.
\<close>

definition js_rem :: "real \<Rightarrow> real \<Rightarrow> real" where
  "js_rem x y = x - y * of_int (if 0 \<le> x / y then \<lfloor>x / y\<rfloor> else \<lceil>x / y\<rceil>)"

definition digitChar :: "nat \<Rightarrow> char" where
  "digitChar n = ''0123456789'' ! n"

text \<open>The decimal digits of a natural number, most significant first.\<close>

fun natToString :: "nat \<Rightarrow> string" where
  "natToString n =
     (if n < 10 then [digitChar n] else natToString (n div 10) @ [digitChar (n mod 10)])"

declare natToString.simps [simp del]

text \<open>
  The string a template literal (or \<open>'0' + n\<close>) makes of an integer-valued number: its
  decimal digits, after a minus sign when it is negative.
\<close>

definition numberToString :: "int \<Rightarrow> string" where
  "numberToString k =
     (if k < 0 then CHR ''-'' # natToString (nat (- k)) else natToString (nat k))"

text \<open>The padding of each label field: \<open>n < 10 ? '0' + n : n\<close>.\<close>

definition pad :: "int \<Rightarrow> string" where
  "pad n = (if n < 10 then ''0'' @ numberToString n else numberToString n)"

definition label_of :: "real \<Rightarrow> string" where
  "label_of t =
     (let day = \<lfloor>t / 24\<rfloor> + 9;
          hour = \<lfloor>js_rem t 24\<rfloor>;
          mins = \<lfloor>js_rem t 1 * 60\<rfloor>
      in pad day @ ''-02 '' @ pad hour @ '':'' @ pad mins)"

subsection \<open>The loop\<close>

text \<open>The body of the loop at the counter \<open>i\<close>: the sample pushed onto the series.\<close>

definition dataPoint :: "nat \<Rightarrow> HydroDataPoint" where
  "dataPoint i =
     (let t = real i / real STEPS_PER_HOUR;
          base = 0.3;
          hMarseille = base + runoffMarseille t + karstMarseille t;
          hAubagne = base + runoffAubagne t + karstAubagne t;
          hRoquevaire = base + runoffRoquevaire t + karstRoquevaire t;
          hStZacharie = base + runoffStZacharie t + karstStZacharie t
      in \<lparr>time = t, label = label_of t, stZacharie = hStZacharie,
          roquevaire = hRoquevaire, aubagne = hAubagne, marseille = hMarseille\<rparr>)"

text \<open>
  \<open>for (let i = 0; i <= TOTAL_HOURS * STEPS_PER_HOUR; i++) SIMULATION_DATA.push(...)\<close>:
  the loop from the counter \<open>i\<close> on, \<open>acc\<close> being the series pushed so far.
\<close>

function generate :: "nat \<Rightarrow> HydroDataPoint list \<Rightarrow> HydroDataPoint list" where
  "generate i acc =
     (if i \<le> TOTAL_HOURS * STEPS_PER_HOUR then generate (i + 1) (acc @ [dataPoint i]) else acc)"
  by pat_completeness auto
termination
  by (relation "measure (\<lambda>(i, acc). Suc (TOTAL_HOURS * STEPS_PER_HOUR) - i)") auto

declare generate.simps [simp del]

definition SIMULATION_DATA :: "HydroDataPoint list" where
  "SIMULATION_DATA = generate 0 []"

section \<open>Sample lookup (StationMap.tsx, FloodSimulation.tsx)\<close>

text \<open>
  \<open>data.find(d => d.time >= currentTime) || data[data.length - 1]\<close>. A sample is an
  object, hence truthy, so the right operand is taken exactly when \<open>find\<close> gives
  \<open>undefined\<close>; on an empty array the index \<open>-1\<close> reads \<open>undefined\<close>, which is \<open>None\<close>.
\<close>

definition currentData :: "HydroDataPoint list \<Rightarrow> real \<Rightarrow> HydroDataPoint option" where
  "currentData data ct =
     (case find (\<lambda>d. time d \<ge> ct) data of
        Some d \<Rightarrow> Some d
      | None \<Rightarrow> (if data = [] then None else Some (last data)))"

section \<open>Notions of the specification\<close>

text \<open>
  The label as the specification words it: day, hour and minute as two decimal digits each,
  the day being \<open>floor (t / 24)\<close> plus the offset 9, the hour the floor of \<open>t\<close> modulo 24
  and the minute the floor of 60 times the fractional part of \<open>t\<close>.
\<close>

definition spec_two_digits :: "nat \<Rightarrow> string" where
  "spec_two_digits n = [digitChar (n div 10), digitChar (n mod 10)]"

definition spec_label :: "real \<Rightarrow> string" where
  "spec_label t =
     spec_two_digits (nat (\<lfloor>t / 24\<rfloor> + 9)) @ ''-02 '' @
     spec_two_digits (nat \<lfloor>t - 24 * of_int \<lfloor>t / 24\<rfloor>\<rfloor>) @ '':'' @
     spec_two_digits (nat \<lfloor>frac t * 60\<rfloor>)"

text \<open>A peak time of a pulse: a time at which the pulse is greatest.\<close>

definition spec_peak_time :: "(real \<Rightarrow> real) \<Rightarrow> real \<Rightarrow> bool" where
  "spec_peak_time f p \<longleftrightarrow> (\<forall>t. f t \<le> f p)"

section \<open>Properties of the playback operations\<close>

lemma MAX_TIME_eq: "MAX_TIME = 48"
  by (simp add: MAX_TIME_def TOTAL_HOURS_def)

text \<open>
  C10. A seek changes the \<open>currentTime\<close> field only: \<open>isPlaying\<close> and \<open>playbackSpeed\<close>
  (and the other cells of the component) are what they were, playing or paused.
\<close>

theorem handleSeek_frame:
  "isPlaying (handleSeek tm s) = isPlaying s \<and>
   playbackSpeed (handleSeek tm s) = playbackSpeed s \<and>
   handleSeek tm s = s\<lparr>currentTime := tm\<rparr> \<and>
   activeTab (handleSeek tm s) = activeTab s \<and>
   lastTimeRef (handleSeek tm s) = lastTimeRef s"
  by (simp add: handleSeek_def)

text \<open>
  C1, as the specification states it, fails: \<open>handleSeek\<close> stores its argument as it is.
  At \<open>t = 100\<close> the stored time is 100, not \<open>MAX_TIME = 48\<close>; at \<open>t = -5\<close> it is -5, not 0.
\<close>

theorem handleSeek_no_clamp_counterexample:
  "currentTime (handleSeek 100 initialState) = 100 \<and>
   spec_clamp 100 0 MAX_TIME = 48 \<and>
   currentTime (handleSeek 100 initialState) \<noteq> spec_clamp 100 0 MAX_TIME \<and>
   currentTime (handleSeek (- 5) initialState) = - 5 \<and>
   spec_clamp (- 5) 0 MAX_TIME = 0 \<and>
   currentTime (handleSeek (- 5) initialState) \<noteq> spec_clamp (- 5) 0 MAX_TIME"
  by (simp add: handleSeek_def spec_clamp_def MAX_TIME_eq)

text \<open>
  C1, amended. For every real \<open>t\<close>, \<open>handleSeek\<close> sets \<open>currentTime\<close> to \<open>t\<close> itself; for
  \<open>t\<close> within \<open>[0, MAX_TIME]\<close>, the range the position slider delivers, that is
  \<open>clamp(t, 0, MAX_TIME)\<close>.
\<close>

theorem handleSeek_sets_time:
  "currentTime (handleSeek t s) = t \<and>
   (0 \<le> t \<and> t \<le> MAX_TIME \<longrightarrow> currentTime (handleSeek t s) = spec_clamp t 0 MAX_TIME)"
  by (simp add: handleSeek_def spec_clamp_def)

theorem handleSeek_sets_time_witness:
  "(0::real) \<le> 16 \<and> (16::real) \<le> MAX_TIME \<and>
   currentTime (handleSeek 16 initialState) = 16 \<and>
   currentTime (handleSeek 16 initialState) = spec_clamp 16 0 MAX_TIME"
  using handleSeek_sets_time [of 16 initialState] by (simp add: MAX_TIME_eq)

text \<open>
  C8. The speed cycle is 1, 2, 4, 1: the updater maps 1 to 2, 2 to 4 and 4 to 1, so it is a
  permutation of \<open>{1, 2, 4}\<close>, and three applications of \<open>handleSpeedChange\<close> to a state of
  speed 1 (or 2, or 4) give that state back.
\<close>

theorem handleSpeedChange_cycle:
  "nextSpeed 1 = 2 \<and> nextSpeed 2 = 4 \<and> nextSpeed 4 = 1 \<and>
   bij_betw nextSpeed {1, 2, 4} {1, 2, 4} \<and>
   (playbackSpeed s = 1 \<longrightarrow>
      playbackSpeed (handleSpeedChange s) = 2 \<and>
      playbackSpeed (handleSpeedChange (handleSpeedChange s)) = 4 \<and>
      handleSpeedChange (handleSpeedChange (handleSpeedChange s)) = s) \<and>
   (playbackSpeed s \<in> {1, 2, 4} \<longrightarrow>
      playbackSpeed (handleSpeedChange s) \<in> {1, 2, 4} \<and>
      handleSpeedChange (handleSpeedChange (handleSpeedChange s)) = s)"
proof -
  have vals: "nextSpeed 1 = 2" "nextSpeed 2 = 4" "nextSpeed 4 = 1"
    by (simp_all add: nextSpeed_def)
  have img: "nextSpeed ` {1, 2, 4} = {1, 2, 4}"
    using vals by auto
  have inj: "inj_on nextSpeed {1, 2, 4}"
    using vals by (auto simp: inj_on_def)
  have bij: "bij_betw nextSpeed {1, 2, 4} {1, 2, 4}"
    using img inj by (simp add: bij_betw_def)
  have three: "handleSpeedChange (handleSpeedChange (handleSpeedChange s)) = s"
    if "playbackSpeed s \<in> {1, 2, 4}"
    using that vals by (auto simp: handleSpeedChange_def)
  have closed: "playbackSpeed (handleSpeedChange s) \<in> {1, 2, 4}"
    if "playbackSpeed s \<in> {1, 2, 4}"
    using that vals by (auto simp: handleSpeedChange_def)
  have from1: "playbackSpeed (handleSpeedChange s) = 2 \<and>
      playbackSpeed (handleSpeedChange (handleSpeedChange s)) = 4"
    if "playbackSpeed s = 1"
    using that vals by (simp add: handleSpeedChange_def)
  show ?thesis
    using vals bij three closed from1 by simp
qed

theorem handleSpeedChange_cycle_witness:
  "playbackSpeed initialState = 1 \<and>
   playbackSpeed initialState \<in> {1, 2, 4} \<and>
   playbackSpeed (handleSpeedChange initialState) = 2 \<and>
   playbackSpeed (handleSpeedChange (handleSpeedChange initialState)) = 4 \<and>
   handleSpeedChange (handleSpeedChange (handleSpeedChange initialState)) = initialState"
  using handleSpeedChange_cycle [of initialState] by (simp add: initialState_def)


subsection \<open>The frame step\<close>

lemma animate_Some:
  assumes "lastTimeRef s = Some lastTime"
  shows "animate tm s =
    (if MAX_TIME \<le> currentTime s + (tm - lastTime) / 1000 * 2 * playbackSpeed s
     then s\<lparr>isPlaying := False, currentTime := MAX_TIME, lastTimeRef := Some tm\<rparr>
     else s\<lparr>currentTime := currentTime s + (tm - lastTime) / 1000 * 2 * playbackSpeed s,
            lastTimeRef := Some tm\<rparr>)"
  using assms by (simp add: animate_def Let_def)

lemma animate_None:
  assumes "lastTimeRef s = None"
  shows "animate tm s = s\<lparr>lastTimeRef := Some tm\<rparr>"
  using assms by (simp add: animate_def)

lemma animate_lastTimeRef: "lastTimeRef (animate tm s) = Some tm"
  by (simp add: animate_def Let_def split: option.splits)

lemma animate_playbackSpeed: "playbackSpeed (animate tm s) = playbackSpeed s"
  by (simp add: animate_def Let_def split: option.splits)

text \<open>
  Once the end is reached and playback has stopped, a further frame at a later (or equal)
  timestamp, at a speed that is not negative, changes neither.
\<close>

lemma animate_at_end:
  assumes "currentTime s = MAX_TIME" and "\<not> isPlaying s"
    and "lastTimeRef s = Some lastTime" and "lastTime \<le> tm" and "0 \<le> playbackSpeed s"
  shows "currentTime (animate tm s) = MAX_TIME \<and> \<not> isPlaying (animate tm s)"
proof -
  have "0 \<le> (tm - lastTime) / 1000 * 2 * playbackSpeed s"
    using assms(4,5) by simp
  then have "MAX_TIME \<le> currentTime s + (tm - lastTime) / 1000 * 2 * playbackSpeed s"
    using assms(1) by simp
  then show ?thesis
    by (simp add: animate_Some [OF assms(3)])
qed

lemma run_frames_at_end:
  assumes "currentTime s = MAX_TIME" and "\<not> isPlaying s"
    and "lastTimeRef s = Some lastTime" and "sorted (lastTime # tms)"
    and "0 \<le> playbackSpeed s"
  shows "currentTime (run_frames tms s) = MAX_TIME \<and> \<not> isPlaying (run_frames tms s)"
  using assms
proof (induction tms arbitrary: s lastTime)
  case Nil
  then show ?case by simp
next
  case (Cons tm tms)
  have le: "lastTime \<le> tm" and srt: "sorted (tm # tms)"
    using Cons.prems(4) by simp_all
  have step: "currentTime (animate tm s) = MAX_TIME \<and> \<not> isPlaying (animate tm s)"
    using animate_at_end [OF Cons.prems(1,2,3) le Cons.prems(5)] .
  have "currentTime (run_frames tms (animate tm s)) = MAX_TIME \<and>
        \<not> isPlaying (run_frames tms (animate tm s))"
    using Cons.IH [of "animate tm s" tm] step srt Cons.prems(5)
    by (simp add: animate_lastTimeRef animate_playbackSpeed)
  then show ?case by simp
qed

text \<open>
  C3. A frame measures \<open>delta\<close> from the timestamp of the previous frame (the first frame
  after a pause has none and only records its timestamp, see \<open>animate_None\<close>).
  In a playing state whose previous frame was \<open>delta\<close> seconds ago (\<open>delta \<ge> 0\<close>), a
  frame sets \<open>currentTime\<close> to \<open>min (currentTime + delta * 2 * speed) MAX_TIME\<close>, the rate
  being 2 simulated hours per second. When the unclamped time reaches \<open>MAX_TIME\<close> the frame
  also sets \<open>isPlaying\<close> to false, and otherwise leaves it true. After such a frame, any
  further frames at later timestamps (at a speed that is not negative) leave \<open>currentTime\<close>
  equal to \<open>MAX_TIME\<close> and \<open>isPlaying\<close> false.
\<close>

theorem animate_advance:
  assumes "isPlaying s" and "lastTimeRef s = Some lastTime"
    and "delta = (tm - lastTime) / 1000" and "0 \<le> delta"
  shows "currentTime (animate tm s) = min (currentTime s + delta * 2 * playbackSpeed s) MAX_TIME \<and>
    (MAX_TIME \<le> currentTime s + delta * 2 * playbackSpeed s \<longrightarrow>
       \<not> isPlaying (animate tm s) \<and> currentTime (animate tm s) = MAX_TIME) \<and>
    (currentTime s + delta * 2 * playbackSpeed s < MAX_TIME \<longrightarrow> isPlaying (animate tm s)) \<and>
    (MAX_TIME \<le> currentTime s + delta * 2 * playbackSpeed s \<and> 0 \<le> playbackSpeed s \<and>
     sorted (tm # tms) \<longrightarrow>
       currentTime (run_frames tms (animate tm s)) = MAX_TIME \<and>
       \<not> isPlaying (run_frames tms (animate tm s)))"
proof -
  let ?next = "currentTime s + delta * 2 * playbackSpeed s"
  have eq: "animate tm s =
    (if MAX_TIME \<le> ?next
     then s\<lparr>isPlaying := False, currentTime := MAX_TIME, lastTimeRef := Some tm\<rparr>
     else s\<lparr>currentTime := ?next, lastTimeRef := Some tm\<rparr>)"
    unfolding assms(3) by (rule animate_Some [OF assms(2)])
  have a: "currentTime (animate tm s) = min ?next MAX_TIME"
    by (simp add: eq min_def)
  have b: "\<not> isPlaying (animate tm s) \<and> currentTime (animate tm s) = MAX_TIME"
    if "MAX_TIME \<le> ?next"
    using that by (simp add: eq)
  have c: "isPlaying (animate tm s)" if "?next < MAX_TIME"
    using that assms(1) by (simp add: eq)
  have d: "currentTime (run_frames tms (animate tm s)) = MAX_TIME \<and>
       \<not> isPlaying (run_frames tms (animate tm s))"
    if "MAX_TIME \<le> ?next" and "0 \<le> playbackSpeed s" and "sorted (tm # tms)"
    using run_frames_at_end [of "animate tm s" tm tms] b [OF that(1)] that(2,3)
    by (simp add: animate_lastTimeRef animate_playbackSpeed)
  show ?thesis
    using a b c d by blast
qed

text \<open>
  A playing state at 47.5 h, speed 1, last frame at 0 ms: a frame at 1000 ms (one second,
  two simulated hours) stops at 48 h, and two more frames leave it there.
\<close>

theorem animate_advance_witness:
  "isPlaying (initialState\<lparr>currentTime := 47.5, isPlaying := True, lastTimeRef := Some 0\<rparr>) \<and>
   lastTimeRef (initialState\<lparr>currentTime := 47.5, isPlaying := True, lastTimeRef := Some 0\<rparr>)
     = Some 0 \<and>
   (1::real) = (1000 - 0) / 1000 \<and> (0::real) \<le> 1 \<and>
   MAX_TIME \<le> 47.5 + 1 * 2 * 1 \<and> sorted [1000, 1016, 1033 :: real] \<and>
   currentTime (animate 1000
     (initialState\<lparr>currentTime := 47.5, isPlaying := True, lastTimeRef := Some 0\<rparr>)) = 48 \<and>
   \<not> isPlaying (animate 1000
     (initialState\<lparr>currentTime := 47.5, isPlaying := True, lastTimeRef := Some 0\<rparr>)) \<and>
   currentTime (run_frames [1016, 1033] (animate 1000
     (initialState\<lparr>currentTime := 47.5, isPlaying := True, lastTimeRef := Some 0\<rparr>))) = 48 \<and>
   \<not> isPlaying (run_frames [1016, 1033] (animate 1000
     (initialState\<lparr>currentTime := 47.5, isPlaying := True, lastTimeRef := Some 0\<rparr>)))"
  using animate_advance [of "initialState\<lparr>currentTime := 47.5, isPlaying := True,
      lastTimeRef := Some 0\<rparr>" 0 1 1000 "[1016, 1033]"]
  by (simp add: initialState_def MAX_TIME_eq)

section \<open>Properties of the series generator\<close>

lemma generate_eq:
  "i \<le> Suc (TOTAL_HOURS * STEPS_PER_HOUR) \<Longrightarrow>
   generate i acc = acc @ map dataPoint [i..<Suc (TOTAL_HOURS * STEPS_PER_HOUR)]"
proof (induction i acc rule: generate.induct)
  case (1 i acc)
  show ?case
  proof (cases "i \<le> TOTAL_HOURS * STEPS_PER_HOUR")
    case True
    then have "generate i acc = generate (i + 1) (acc @ [dataPoint i])"
      by (subst generate.simps) simp
    also have "\<dots> = (acc @ [dataPoint i]) @ map dataPoint [i + 1..<Suc (TOTAL_HOURS * STEPS_PER_HOUR)]"
      using "1.IH" [OF True] True by (simp del: upt_Suc)
    also have "\<dots> = acc @ map dataPoint [i..<Suc (TOTAL_HOURS * STEPS_PER_HOUR)]"
      using True by (simp add: upt_conv_Cons del: upt_Suc)
    finally show ?thesis .
  next
    case False
    with "1.prems" have "i = Suc (TOTAL_HOURS * STEPS_PER_HOUR)" by simp
    then show ?thesis by (subst generate.simps) simp
  qed
qed

lemma SIMULATION_DATA_eq: "SIMULATION_DATA = map dataPoint [0..<97]"
  using generate_eq [of 0 "[]"] by (simp add: SIMULATION_DATA_def TOTAL_HOURS_def STEPS_PER_HOUR_def)

lemma time_dataPoint: "time (dataPoint i) = real i / 2"
  by (simp add: dataPoint_def STEPS_PER_HOUR_def Let_def)


lemma length_SIMULATION_DATA: "length SIMULATION_DATA = 97"
  by (simp add: SIMULATION_DATA_eq)

lemma nth_SIMULATION_DATA: "i < 97 \<Longrightarrow> SIMULATION_DATA ! i = dataPoint i"
  by (simp add: SIMULATION_DATA_eq del: upt_Suc)

lemma set_SIMULATION_DATA: "set SIMULATION_DATA = dataPoint ` {..<97}"
  by (simp add: SIMULATION_DATA_eq atLeast0LessThan del: upt_Suc)

lemma sorted_times: "sorted_wrt (<) (map time SIMULATION_DATA)"
  by (simp add: sorted_wrt_iff_nth_less length_SIMULATION_DATA nth_SIMULATION_DATA time_dataPoint)

text \<open>
  C5. The series has \<open>TOTAL_HOURS * STEPS_PER_HOUR + 1 = 48 / 0.5 + 1 = 97\<close> samples; its
  first time is 0, its last time is \<open>MAX_TIME = 48\<close>, and each time is 0.5 above the one
  before, so the times strictly increase.
\<close>

theorem SIMULATION_DATA_shape:
  "length SIMULATION_DATA = TOTAL_HOURS * STEPS_PER_HOUR + 1 \<and>
   length SIMULATION_DATA = 97 \<and>
   real (length SIMULATION_DATA) = real TOTAL_HOURS / (1 / 2) + 1 \<and>
   time (hd SIMULATION_DATA) = 0 \<and>
   time (last SIMULATION_DATA) = MAX_TIME \<and> MAX_TIME = 48 \<and>
   (\<forall>i. i + 1 < length SIMULATION_DATA \<longrightarrow>
      time (SIMULATION_DATA ! (i + 1)) - time (SIMULATION_DATA ! i) = 1 / 2 \<and>
      time (SIMULATION_DATA ! i) < time (SIMULATION_DATA ! (i + 1))) \<and>
   sorted_wrt (<) (map time SIMULATION_DATA)"
proof -
  have ne: "SIMULATION_DATA \<noteq> []"
    using length_SIMULATION_DATA by auto
  have first: "time (hd SIMULATION_DATA) = 0"
    using nth_SIMULATION_DATA [of 0] ne by (simp add: hd_conv_nth time_dataPoint)
  have lst: "time (last SIMULATION_DATA) = MAX_TIME"
    using nth_SIMULATION_DATA [of 96] ne
    by (simp add: last_conv_nth length_SIMULATION_DATA time_dataPoint MAX_TIME_eq)
  have step: "time (SIMULATION_DATA ! (i + 1)) - time (SIMULATION_DATA ! i) = 1 / 2 \<and>
      time (SIMULATION_DATA ! i) < time (SIMULATION_DATA ! (i + 1))"
    if "i + 1 < length SIMULATION_DATA" for i
    using that nth_SIMULATION_DATA [of i] nth_SIMULATION_DATA [of "i + 1"]
    by (simp add: length_SIMULATION_DATA time_dataPoint add_divide_distrib)
  show ?thesis
    using first lst step sorted_times
    by (simp add: length_SIMULATION_DATA TOTAL_HOURS_def STEPS_PER_HOUR_def MAX_TIME_eq)
qed

theorem SIMULATION_DATA_shape_witness:
  "(0::nat) + 1 < length SIMULATION_DATA \<and>
   time (SIMULATION_DATA ! (0 + 1)) - time (SIMULATION_DATA ! 0) = 1 / 2 \<and>
   time (SIMULATION_DATA ! 0) < time (SIMULATION_DATA ! (0 + 1)) \<and>
   time (SIMULATION_DATA ! 0) = 0 \<and> time (SIMULATION_DATA ! 1) = 1 / 2"
proof -
  have len: "(0::nat) + 1 < length SIMULATION_DATA"
    by (simp add: length_SIMULATION_DATA)
  have st: "time (SIMULATION_DATA ! (0 + 1)) - time (SIMULATION_DATA ! 0) = 1 / 2 \<and>
      time (SIMULATION_DATA ! 0) < time (SIMULATION_DATA ! (0 + 1))"
    using SIMULATION_DATA_shape len by blast
  have "time (SIMULATION_DATA ! 0) = 0" "time (SIMULATION_DATA ! 1) = 1 / 2"
    using nth_SIMULATION_DATA [of 0] nth_SIMULATION_DATA [of 1]
    by (simp_all add: time_dataPoint)
  then show ?thesis
    using len st by blast
qed

lemma readings_dataPoint:
  "stZacharie (dataPoint i) = 0.3 + runoffStZacharie (real i / 2) + karstStZacharie (real i / 2)"
  "roquevaire (dataPoint i) = 0.3 + runoffRoquevaire (real i / 2) + karstRoquevaire (real i / 2)"
  "aubagne (dataPoint i) = 0.3 + runoffAubagne (real i / 2) + karstAubagne (real i / 2)"
  "marseille (dataPoint i) = 0.3 + runoffMarseille (real i / 2) + karstMarseille (real i / 2)"
  by (simp_all add: dataPoint_def STEPS_PER_HOUR_def Let_def)

lemma pulses_pos:
  "0 < runoffStZacharie t" "0 < runoffRoquevaire t" "0 < runoffAubagne t" "0 < runoffMarseille t"
  "0 < karstStZacharie t" "0 < karstRoquevaire t" "0 < karstAubagne t" "0 < karstMarseille t"
  by (simp_all add: runoffStZacharie_def runoffRoquevaire_def runoffAubagne_def
      runoffMarseille_def karstStZacharie_def karstRoquevaire_def karstAubagne_def
      karstMarseille_def)

text \<open>
  C7. In every sample of the series each of the four readings is at least the base 0.3.
\<close>

theorem readings_above_base:
  "\<forall>d \<in> set SIMULATION_DATA.
     0.3 \<le> stZacharie d \<and> 0.3 \<le> roquevaire d \<and> 0.3 \<le> aubagne d \<and> 0.3 \<le> marseille d"
proof
  fix d assume "d \<in> set SIMULATION_DATA"
  then obtain i where d: "d = dataPoint i"
    by (auto simp: set_SIMULATION_DATA)
  have "0.3 \<le> stZacharie d"
    using pulses_pos(1) [of "real i / 2"] pulses_pos(5) [of "real i / 2"]
    by (simp add: d readings_dataPoint(1))
  moreover have "0.3 \<le> roquevaire d"
    using pulses_pos(2) [of "real i / 2"] pulses_pos(6) [of "real i / 2"]
    by (simp add: d readings_dataPoint(2))
  moreover have "0.3 \<le> aubagne d"
    using pulses_pos(3) [of "real i / 2"] pulses_pos(7) [of "real i / 2"]
    by (simp add: d readings_dataPoint(3))
  moreover have "0.3 \<le> marseille d"
    using pulses_pos(4) [of "real i / 2"] pulses_pos(8) [of "real i / 2"]
    by (simp add: d readings_dataPoint(4))
  ultimately show "0.3 \<le> stZacharie d \<and> 0.3 \<le> roquevaire d \<and> 0.3 \<le> aubagne d \<and>
      0.3 \<le> marseille d"
    by simp
qed

theorem readings_above_base_witness:
  "SIMULATION_DATA ! 32 \<in> set SIMULATION_DATA \<and> time (SIMULATION_DATA ! 32) = 16 \<and>
   0.3 \<le> stZacharie (SIMULATION_DATA ! 32) \<and> 0.3 \<le> roquevaire (SIMULATION_DATA ! 32) \<and>
   0.3 \<le> aubagne (SIMULATION_DATA ! 32) \<and> 0.3 \<le> marseille (SIMULATION_DATA ! 32)"
proof -
  have mem: "SIMULATION_DATA ! 32 \<in> set SIMULATION_DATA"
    by (simp add: length_SIMULATION_DATA)
  have "time (SIMULATION_DATA ! 32) = 16"
    using nth_SIMULATION_DATA [of 32] by (simp add: time_dataPoint)
  then show ?thesis
    using mem readings_above_base by blast
qed

section \<open>Properties of the sample lookup\<close>

text \<open>
  On a series whose times strictly increase, the first sample at or after \<open>ct\<close> is the one
  of least time among those at or after \<open>ct\<close>.
\<close>

lemma find_sorted_least:
  assumes srt: "sorted_wrt (<) (map time xs)"
    and fnd: "find (\<lambda>d. ct \<le> time d) xs = Some d"
  shows "d \<in> set xs \<and> ct \<le> time d \<and>
    (\<forall>e \<in> set xs. ct \<le> time e \<longrightarrow> time d \<le> time e) \<and>
    (\<forall>e \<in> set xs. time e = ct \<longrightarrow> d = e)"
proof -
  from fnd obtain i where i: "i < length xs" "ct \<le> time (xs ! i)" "d = xs ! i"
    and before: "\<forall>j<i. \<not> ct \<le> time (xs ! j)"
    by (auto simp: find_Some_iff)
  have mono: "time (xs ! j) < time (xs ! k)" if "j < k" "k < length xs" for j k
    using srt that by (simp add: sorted_wrt_iff_nth_less)
  have least: "time d \<le> time e" if "e \<in> set xs" "ct \<le> time e" for e
  proof -
    from that(1) obtain k where k: "k < length xs" "e = xs ! k"
      by (auto simp: in_set_conv_nth)
    have "\<not> k < i" using before that(2) k(2) by auto
    then have "i = k \<or> i < k" by auto
    then show ?thesis
      using mono [of i k] k i(3) by auto
  qed
  have same: "d = e" if "e \<in> set xs" "time e = ct" for e
  proof -
    from that(1) obtain k where k: "k < length xs" "e = xs ! k"
      by (auto simp: in_set_conv_nth)
    have "\<not> k < i" using before that(2) k(2) by auto
    moreover have "\<not> i < k"
      using mono [of i k] k i(2,3) that(2) by auto
    ultimately have "i = k" by simp
    then show ?thesis using k(2) i(3) by simp
  qed
  show ?thesis
    using i least same by auto
qed

text \<open>
  C4. On the generated series the lookup always returns a sample of the series. When some
  sample lies at or after \<open>ct\<close>, the result lies at or after \<open>ct\<close> and no such sample has
  a smaller time; a sample whose time is exactly \<open>ct\<close> is the result itself; when every
  sample lies before \<open>ct\<close>, the result is the last sample. The lookup is a function of the
  series and of \<open>ct\<close>, so the same time gives the same sample.
\<close>

theorem currentData_lookup:
  "\<exists>d. currentData SIMULATION_DATA ct = Some d \<and> d \<in> set SIMULATION_DATA \<and>
     ((\<exists>e \<in> set SIMULATION_DATA. ct \<le> time e) \<longrightarrow>
        ct \<le> time d \<and> (\<forall>e \<in> set SIMULATION_DATA. ct \<le> time e \<longrightarrow> time d \<le> time e)) \<and>
     (\<forall>e \<in> set SIMULATION_DATA. time e = ct \<longrightarrow> d = e) \<and>
     ((\<forall>e \<in> set SIMULATION_DATA. time e < ct) \<longrightarrow> d = last SIMULATION_DATA)"
proof (cases "find (\<lambda>d. ct \<le> time d) SIMULATION_DATA")
  case None
  have ne: "SIMULATION_DATA \<noteq> []"
    using length_SIMULATION_DATA by auto
  have none: "\<forall>e \<in> set SIMULATION_DATA. \<not> ct \<le> time e"
    using None by (simp add: find_None_iff)
  have "currentData SIMULATION_DATA ct = Some (last SIMULATION_DATA)"
    using None ne by (simp add: currentData_def)
  moreover have "last SIMULATION_DATA \<in> set SIMULATION_DATA"
    using ne by simp
  ultimately show ?thesis
    using none by auto
next
  case (Some d)
  have cd: "currentData SIMULATION_DATA ct = Some d"
    using Some by (simp add: currentData_def)
  have props: "d \<in> set SIMULATION_DATA \<and> ct \<le> time d \<and>
    (\<forall>e \<in> set SIMULATION_DATA. ct \<le> time e \<longrightarrow> time d \<le> time e) \<and>
    (\<forall>e \<in> set SIMULATION_DATA. time e = ct \<longrightarrow> d = e)"
    using find_sorted_least [OF sorted_times Some] .
  have "\<not> time d < ct"
    using props by simp
  then have "\<not> (\<forall>e \<in> set SIMULATION_DATA. time e < ct)"
    using props by blast
  then show ?thesis
    using cd props by auto
qed

text \<open>
  At 16 h the lookup returns sample 32 (time 16), at 16.2 h sample 33 (time 16.5), and at
  100 h the last sample.
\<close>

theorem currentData_lookup_witness:
  "SIMULATION_DATA ! 32 \<in> set SIMULATION_DATA \<and> time (SIMULATION_DATA ! 32) = 16 \<and>
   currentData SIMULATION_DATA 16 = Some (SIMULATION_DATA ! 32) \<and>
   SIMULATION_DATA ! 33 \<in> set SIMULATION_DATA \<and> 16.2 \<le> time (SIMULATION_DATA ! 33) \<and>
   currentData SIMULATION_DATA 16.2 = Some (SIMULATION_DATA ! 33) \<and>
   currentData SIMULATION_DATA 100 = Some (last SIMULATION_DATA)"
proof -
  have m32: "SIMULATION_DATA ! 32 \<in> set SIMULATION_DATA"
    and m33: "SIMULATION_DATA ! 33 \<in> set SIMULATION_DATA"
    by (simp_all add: length_SIMULATION_DATA)
  have t32: "time (SIMULATION_DATA ! 32) = 16"
    using nth_SIMULATION_DATA [of 32] by (simp add: time_dataPoint)
  have t33: "time (SIMULATION_DATA ! 33) = 33 / 2"
    using nth_SIMULATION_DATA [of 33] by (simp add: time_dataPoint)
  have a: "currentData SIMULATION_DATA 16 = Some (SIMULATION_DATA ! 32)"
  proof -
    obtain d where d: "currentData SIMULATION_DATA 16 = Some d"
      and same: "\<forall>e \<in> set SIMULATION_DATA. time e = 16 \<longrightarrow> d = e"
      using currentData_lookup [of 16] by auto
    have "d = SIMULATION_DATA ! 32"
      using same m32 t32 by simp
    then show ?thesis using d by simp
  qed
  have b: "currentData SIMULATION_DATA 16.2 = Some (SIMULATION_DATA ! 33)"
  proof -
    have ex: "\<exists>e \<in> set SIMULATION_DATA. 16.2 \<le> time e"
      using m33 t33 by (intro bexI [of _ "SIMULATION_DATA ! 33"]) simp_all
    obtain d where d: "currentData SIMULATION_DATA 16.2 = Some d" "d \<in> set SIMULATION_DATA"
      and imp: "(\<exists>e \<in> set SIMULATION_DATA. 16.2 \<le> time e) \<longrightarrow>
        16.2 \<le> time d \<and> (\<forall>e \<in> set SIMULATION_DATA. 16.2 \<le> time e \<longrightarrow> time d \<le> time e)"
      using currentData_lookup [of "16.2"] by blast
    have low: "16.2 \<le> time d"
      and least: "\<forall>e \<in> set SIMULATION_DATA. 16.2 \<le> time e \<longrightarrow> time d \<le> time e"
      using imp ex by simp_all
    have up: "time d \<le> 33 / 2"
      using least m33 t33 by fastforce
    from d(2) obtain i where i: "i < 97" "d = dataPoint i"
      by (auto simp: set_SIMULATION_DATA)
    have "162 \<le> real i * 5" "real i \<le> 33"
      using low up by (simp_all add: i(2) time_dataPoint)
    then have "162 \<le> i * 5" "i \<le> 33"
      by linarith+
    then have "i = 33"
      by simp
    then show ?thesis
      using d(1) i(2) nth_SIMULATION_DATA [of 33] by simp
  qed
  have all: "\<forall>e \<in> set SIMULATION_DATA. time e < 100"
    by (auto simp: set_SIMULATION_DATA time_dataPoint)
  have c: "currentData SIMULATION_DATA 100 = Some (last SIMULATION_DATA)"
  proof -
    obtain d where d: "currentData SIMULATION_DATA 100 = Some d"
      and lst: "(\<forall>e \<in> set SIMULATION_DATA. time e < 100) \<longrightarrow> d = last SIMULATION_DATA"
      using currentData_lookup [of 100] by auto
    then show ?thesis using all by simp
  qed
  show ?thesis
    using m32 m33 t32 t33 a b c by simp
qed

subsection \<open>The labels\<close>

lemma js_rem_nonneg:
  assumes "0 \<le> x" and "0 < y"
  shows "js_rem x y = x - y * of_int \<lfloor>x / y\<rfloor>"
  using assms by (simp add: js_rem_def)

lemma js_rem_1: "0 \<le> t \<Longrightarrow> js_rem t 1 = frac t"
  by (simp add: js_rem_nonneg frac_def)

lemma natToString_digit: "n < 10 \<Longrightarrow> natToString n = [digitChar n]"
  by (subst natToString.simps) simp

lemma natToString_two_digits:
  assumes "10 \<le> n" and "n < 100"
  shows "natToString n = spec_two_digits n"
proof -
  have "n div 10 < 10"
    using assms(2) by simp
  then have "natToString (n div 10) = [digitChar (n div 10)]"
    by (rule natToString_digit)
  moreover have "natToString n = natToString (n div 10) @ [digitChar (n mod 10)]"
    using assms(1) by (subst natToString.simps) simp
  ultimately show ?thesis
    by (simp add: spec_two_digits_def)
qed

lemma pad_two_digits:
  assumes "0 \<le> k" and "k < 100"
  shows "pad k = spec_two_digits (nat k)"
proof (cases "k < 10")
  case True
  then have small: "nat k < 10"
    by simp
  then have "nat k div 10 = 0" "nat k mod 10 = nat k"
    by simp_all
  then have "spec_two_digits (nat k) = [CHR ''0'', digitChar (nat k)]"
    by (simp add: spec_two_digits_def digitChar_def)
  moreover have "pad k = [CHR ''0'', digitChar (nat k)]"
    using True assms(1) natToString_digit [OF small] by (simp add: pad_def numberToString_def)
  ultimately show ?thesis
    by simp
next
  case False
  then have "10 \<le> nat k" "nat k < 100"
    using assms by simp_all
  then have "natToString (nat k) = spec_two_digits (nat k)"
    by (rule natToString_two_digits)
  then show ?thesis
    using False assms(1) by (simp add: pad_def numberToString_def)
qed

lemma hour_range:
  fixes t :: real
  shows "0 \<le> \<lfloor>t - 24 * of_int \<lfloor>t / 24\<rfloor>\<rfloor> \<and> \<lfloor>t - 24 * of_int \<lfloor>t / 24\<rfloor>\<rfloor> < 24"
proof -
  have "of_int \<lfloor>t / 24\<rfloor> \<le> t / 24" "t / 24 < of_int \<lfloor>t / 24\<rfloor> + 1"
    by linarith+
  then have "0 \<le> t - 24 * of_int \<lfloor>t / 24\<rfloor>" "t - 24 * of_int \<lfloor>t / 24\<rfloor> < 24"
    by linarith+
  then show ?thesis
    by (simp add: floor_less_iff)
qed

lemma mins_range:
  fixes t :: real
  shows "0 \<le> \<lfloor>frac t * 60\<rfloor> \<and> \<lfloor>frac t * 60\<rfloor> < 60"
proof -
  have "0 \<le> frac t" "frac t < 1"
    by (simp_all add: frac_lt_1)
  then have "0 \<le> frac t * 60" "frac t * 60 < 60"
    by simp_all
  then show ?thesis
    by (simp add: floor_less_iff)
qed

lemma day_range:
  fixes t :: real
  assumes "0 \<le> t" and "t < 2184"
  shows "0 \<le> \<lfloor>t / 24\<rfloor> + 9 \<and> \<lfloor>t / 24\<rfloor> + 9 < 100"
proof -
  have "0 \<le> t / 24" "t / 24 < 91"
    using assms by simp_all
  then have "0 \<le> \<lfloor>t / 24\<rfloor>" "\<lfloor>t / 24\<rfloor> < 91"
    by (simp_all add: floor_less_iff)
  then show ?thesis by simp
qed

lemma label_of_spec:
  assumes "0 \<le> t" and "t < 2184"
  shows "label_of t = spec_label t"
proof -
  have "pad (\<lfloor>t / 24\<rfloor> + 9) = spec_two_digits (nat (\<lfloor>t / 24\<rfloor> + 9))"
    using day_range [OF assms] by (simp add: pad_two_digits)
  moreover have "pad \<lfloor>js_rem t 24\<rfloor> = spec_two_digits (nat \<lfloor>t - 24 * of_int \<lfloor>t / 24\<rfloor>\<rfloor>)"
    using hour_range [of t] assms(1) by (simp add: js_rem_nonneg pad_two_digits)
  moreover have "pad \<lfloor>js_rem t 1 * 60\<rfloor> = spec_two_digits (nat \<lfloor>frac t * 60\<rfloor>)"
    using mins_range [of t] assms(1) by (simp add: js_rem_1 pad_two_digits)
  ultimately show ?thesis
    by (simp add: label_of_def spec_label_def Let_def)
qed

lemma label_dataPoint: "label (dataPoint i) = label_of (time (dataPoint i))"
  by (simp add: dataPoint_def Let_def)

lemma length_spec_label: "length (spec_label t) = 11"
  by (simp add: spec_label_def spec_two_digits_def)

text \<open>
  C9. For every time from 0 up to (excluding) 2184 h, where the day still has two digits,
  the label computed by the program is the label of the specification: \<open>DD-02 HH:MM\<close>,
  zero-padded. Every sample of the series carries the label of its own time, of 11
  characters, so samples of equal time have equal labels.
\<close>

theorem label_format:
  "(0 \<le> t \<and> t < 2184 \<longrightarrow> label_of t = spec_label t) \<and>
   (\<forall>d \<in> set SIMULATION_DATA.
      label d = label_of (time d) \<and> label d = spec_label (time d) \<and> length (label d) = 11) \<and>
   (\<forall>d \<in> set SIMULATION_DATA. \<forall>e \<in> set SIMULATION_DATA.
      time d = time e \<longrightarrow> label d = label e)"
proof -
  have each: "label d = label_of (time d) \<and> label d = spec_label (time d) \<and> length (label d) = 11"
    if "d \<in> set SIMULATION_DATA" for d
  proof -
    from that obtain i where i: "i < 97" "d = dataPoint i"
      by (auto simp: set_SIMULATION_DATA)
    have "0 \<le> time d" "time d < 2184"
      using i by (simp_all add: time_dataPoint)
    then have "label_of (time d) = spec_label (time d)"
      by (rule label_of_spec)
    then show ?thesis
      using i(2) label_dataPoint [of i] by (simp add: length_spec_label)
  qed
  then have "label d = label e"
    if "d \<in> set SIMULATION_DATA" "e \<in> set SIMULATION_DATA" "time d = time e" for d e
    using that by metis
  then show ?thesis
    using each label_of_spec by blast
qed

theorem label_format_witness:
  "(0::real) \<le> 47 / 2 \<and> (47 / 2 :: real) < 2184 \<and>
   label_of (47 / 2) = ''09-02 23:30'' \<and>
   SIMULATION_DATA ! 47 \<in> set SIMULATION_DATA \<and>
   time (SIMULATION_DATA ! 47) = 47 / 2 \<and>
   label (SIMULATION_DATA ! 47) = ''09-02 23:30'' \<and>
   SIMULATION_DATA ! 96 \<in> set SIMULATION_DATA \<and>
   label (SIMULATION_DATA ! 96) = ''11-02 00:00''"
proof -
  have m: "SIMULATION_DATA ! 47 \<in> set SIMULATION_DATA" "SIMULATION_DATA ! 96 \<in> set SIMULATION_DATA"
    by (simp_all add: length_SIMULATION_DATA)
  have t: "time (SIMULATION_DATA ! 47) = 47 / 2" "time (SIMULATION_DATA ! 96) = 48"
    using nth_SIMULATION_DATA [of 47] nth_SIMULATION_DATA [of 96]
    by (simp_all add: time_dataPoint)
  have v: "spec_label (47 / 2) = ''09-02 23:30''" "spec_label 48 = ''11-02 00:00''"
    by (simp_all add: spec_label_def spec_two_digits_def digitChar_def frac_def)
  have a: "label_of (47 / 2) = ''09-02 23:30''"
    using label_format [of "47 / 2"] v(1) by simp
  have "label (SIMULATION_DATA ! 47) = spec_label (time (SIMULATION_DATA ! 47))"
    "label (SIMULATION_DATA ! 96) = spec_label (time (SIMULATION_DATA ! 96))"
    using label_format [of 0] m by blast+
  then show ?thesis
    using m t v a by simp
qed

subsection \<open>The pulses\<close>

lemma gauss_peak:
  fixes a w p q :: real
  assumes "0 < a" and "0 < w"
  shows "(\<forall>t. a * exp (- ((t - p) ^ 2) / w) \<le> a * exp (- ((q - p) ^ 2) / w)) \<longleftrightarrow> q = p"
proof
  assume all: "\<forall>t. a * exp (- ((t - p) ^ 2) / w) \<le> a * exp (- ((q - p) ^ 2) / w)"
  then have "a * exp (- ((p - p) ^ 2) / w) \<le> a * exp (- ((q - p) ^ 2) / w)"
    by (rule spec)
  then have "1 \<le> exp (- ((q - p) ^ 2) / w)"
    using assms(1) by simp
  then have "0 \<le> - ((q - p) ^ 2) / w"
    by simp
  then have "(q - p) ^ 2 \<le> 0"
    using assms(2) by (simp add: field_simps)
  then have "(q - p) ^ 2 = 0"
    using zero_le_power2 [of "q - p"] by linarith
  then show "q = p"
    by simp
next
  assume "q = p"
  have "a * exp (- ((t - p) ^ 2) / w) \<le> a" for t
  proof -
    have "- ((t - p) ^ 2) / w \<le> 0"
      using assms(2) by (simp add: field_simps)
    then have "exp (- ((t - p) ^ 2) / w) \<le> 1"
      by simp
    then show ?thesis
      using assms(1) by simp
  qed
  then show "\<forall>t. a * exp (- ((t - p) ^ 2) / w) \<le> a * exp (- ((q - p) ^ 2) / w)"
    using \<open>q = p\<close> by simp
qed

lemma runoff_peak_times:
  "spec_peak_time runoffMarseille p \<longleftrightarrow> p = 6"
  "spec_peak_time runoffAubagne p \<longleftrightarrow> p = 7"
  "spec_peak_time runoffRoquevaire p \<longleftrightarrow> p = 8"
  "spec_peak_time runoffStZacharie p \<longleftrightarrow> p = 9"
  unfolding spec_peak_time_def runoffMarseille_def runoffAubagne_def runoffRoquevaire_def
    runoffStZacharie_def
  by (rule gauss_peak; simp)+

lemma karstRoquevaire_eq: "karstRoquevaire t = 13 / 10 * exp (- ((t - 35 / 2) ^ 2) / 18)"
  by (simp add: karstRoquevaire_def)

lemma karst_peak_times:
  "spec_peak_time karstStZacharie p \<longleftrightarrow> p = 16"
  "spec_peak_time karstRoquevaire p \<longleftrightarrow> p = 35 / 2"
  "spec_peak_time karstAubagne p \<longleftrightarrow> p = 19"
  "spec_peak_time karstMarseille p \<longleftrightarrow> p = 21"
  unfolding spec_peak_time_def karstStZacharie_def karstRoquevaire_eq karstAubagne_def
    karstMarseille_def
  by (rule gauss_peak; simp)+

lemma runoff_amplitudes:
  "runoffMarseille 6 = 0.4" "runoffAubagne 7 = 0.5" "runoffRoquevaire 8 = 0.6"
  "runoffStZacharie 9 = 0.1"
  by (simp_all add: runoffMarseille_def runoffAubagne_def runoffRoquevaire_def
      runoffStZacharie_def)

lemma karst_amplitudes:
  "karstStZacharie 16 = 1.2" "karstRoquevaire (35 / 2) = 1.3" "karstAubagne 19 = 0.9"
  "karstMarseille 21 = 0.4"
  by (simp_all add: karstStZacharie_def karstRoquevaire_def karstAubagne_def
      karstMarseille_def)

lemma sample_times: "i < 97 \<Longrightarrow> real i / 2 \<in> time ` set SIMULATION_DATA"
  unfolding set_SIMULATION_DATA
  by (metis image_eqI lessThan_iff time_dataPoint)


text \<open>
  C6. Each runoff pulse has exactly one peak time (a time where it is greatest): 6 h at
  marseille, 7 h at aubagne, 8 h at roquevaire and 9 h at stZacharie, each the time of a sample
  of the series. Going upstream the peak time is strictly later, and the peak at stZacharie,
  the latest, is the smallest of the four (0.1 against 0.4, 0.5 and 0.6).
\<close>

theorem runoff_peaks_upstream:
  "(spec_peak_time runoffMarseille p \<longleftrightarrow> p = 6) \<and>
   (spec_peak_time runoffAubagne p \<longleftrightarrow> p = 7) \<and>
   (spec_peak_time runoffRoquevaire p \<longleftrightarrow> p = 8) \<and>
   (spec_peak_time runoffStZacharie p \<longleftrightarrow> p = 9) \<and>
   {6, 7, 8, 9} \<subseteq> time ` set SIMULATION_DATA \<and>
   (spec_peak_time runoffMarseille pM \<and> spec_peak_time runoffAubagne pA \<and>
    spec_peak_time runoffRoquevaire pR \<and> spec_peak_time runoffStZacharie pZ \<longrightarrow>
      pM < pA \<and> pA < pR \<and> pR < pZ \<and>
      runoffMarseille pM = 0.4 \<and> runoffAubagne pA = 0.5 \<and>
      runoffRoquevaire pR = 0.6 \<and> runoffStZacharie pZ = 0.1 \<and>
      runoffStZacharie pZ < runoffMarseille pM \<and>
      runoffStZacharie pZ < runoffAubagne pA \<and>
      runoffStZacharie pZ < runoffRoquevaire pR)"
proof -
  have samples: "{6, 7, 8, 9} \<subseteq> time ` set SIMULATION_DATA"
    using sample_times [of 12] sample_times [of 14] sample_times [of 16] sample_times [of 18]
    by simp
  have order: "pM < pA \<and> pA < pR \<and> pR < pZ \<and>
      runoffMarseille pM = 0.4 \<and> runoffAubagne pA = 0.5 \<and>
      runoffRoquevaire pR = 0.6 \<and> runoffStZacharie pZ = 0.1 \<and>
      runoffStZacharie pZ < runoffMarseille pM \<and>
      runoffStZacharie pZ < runoffAubagne pA \<and>
      runoffStZacharie pZ < runoffRoquevaire pR"
    if "spec_peak_time runoffMarseille pM" "spec_peak_time runoffAubagne pA"
      "spec_peak_time runoffRoquevaire pR" "spec_peak_time runoffStZacharie pZ"
  proof -
    have eq: "pM = 6" "pA = 7" "pR = 8" "pZ = 9"
      using that by (simp_all only: runoff_peak_times)
    show ?thesis
      unfolding eq by (simp add: runoff_amplitudes)
  qed
  show ?thesis
    using samples order by (simp add: runoff_peak_times)
qed

theorem runoff_peaks_upstream_witness:
  "spec_peak_time runoffMarseille 6 \<and> spec_peak_time runoffAubagne 7 \<and>
   spec_peak_time runoffRoquevaire 8 \<and> spec_peak_time runoffStZacharie 9 \<and>
   runoffMarseille 6 = 0.4 \<and> runoffAubagne 7 = 0.5 \<and>
   runoffRoquevaire 8 = 0.6 \<and> runoffStZacharie 9 = 0.1 \<and>
   runoffStZacharie 9 < runoffMarseille 6 \<and> runoffStZacharie 9 < runoffAubagne 7 \<and>
   runoffStZacharie 9 < runoffRoquevaire 8"
proof -
  have pk: "spec_peak_time runoffMarseille 6" "spec_peak_time runoffAubagne 7"
    "spec_peak_time runoffRoquevaire 8" "spec_peak_time runoffStZacharie 9"
    using runoff_peaks_upstream [of 6 6 7 8 9]
      runoff_peaks_upstream [of 7 6 7 8 9]
      runoff_peaks_upstream [of 8 6 7 8 9]
      runoff_peaks_upstream [of 9 6 7 8 9]
    by simp_all
  then show ?thesis
    using runoff_peaks_upstream [of 6 6 7 8 9] by simp
qed

text \<open>
  C2, as the specification states it, fails between the first two stations: the karst pulse
  of roquevaire, which peaks at 17.5 h with 1.3, is not smaller than that of stZacharie
  upstream of it, which peaks at 16 h with 1.2.
\<close>

theorem karst_attenuation_counterexample:
  "spec_peak_time karstStZacharie 16 \<and> karstStZacharie 16 = 1.2 \<and>
   spec_peak_time karstRoquevaire (35 / 2) \<and> karstRoquevaire (35 / 2) = 1.3 \<and>
   \<not> karstRoquevaire (35 / 2) < karstStZacharie 16"
  by (simp add: karst_peak_times karst_amplitudes)

text \<open>
  C2, amended. Each karst pulse has exactly one peak time: 16 h at stZacharie, the earliest,
  then 17.5 h at roquevaire, 19 h at aubagne and 21 h at marseille, each the time of a sample
  of the series and strictly later than at the station upstream. The peak grows from
  stZacharie (1.2) to roquevaire (1.3) and is strictly smaller than at the station upstream
  from there on: aubagne (0.9), marseille (0.4).
\<close>

theorem karst_peaks_downstream:
  "(spec_peak_time karstStZacharie p \<longleftrightarrow> p = 16) \<and>
   (spec_peak_time karstRoquevaire p \<longleftrightarrow> p = 35 / 2) \<and>
   (spec_peak_time karstAubagne p \<longleftrightarrow> p = 19) \<and>
   (spec_peak_time karstMarseille p \<longleftrightarrow> p = 21) \<and>
   {16, 35 / 2, 19, 21} \<subseteq> time ` set SIMULATION_DATA \<and>
   (spec_peak_time karstStZacharie pZ \<and> spec_peak_time karstRoquevaire pR \<and>
    spec_peak_time karstAubagne pA \<and> spec_peak_time karstMarseille pM \<longrightarrow>
      pZ < pR \<and> pR < pA \<and> pA < pM \<and>
      karstStZacharie pZ = 1.2 \<and> karstRoquevaire pR = 1.3 \<and>
      karstAubagne pA = 0.9 \<and> karstMarseille pM = 0.4 \<and>
      karstStZacharie pZ < karstRoquevaire pR \<and>
      karstAubagne pA < karstRoquevaire pR \<and>
      karstMarseille pM < karstAubagne pA)"
proof -
  have samples: "{16, 35 / 2, 19, 21} \<subseteq> time ` set SIMULATION_DATA"
    using sample_times [of 32] sample_times [of 35] sample_times [of 38] sample_times [of 42]
    by simp
  have order: "pZ < pR \<and> pR < pA \<and> pA < pM \<and>
      karstStZacharie pZ = 1.2 \<and> karstRoquevaire pR = 1.3 \<and>
      karstAubagne pA = 0.9 \<and> karstMarseille pM = 0.4 \<and>
      karstStZacharie pZ < karstRoquevaire pR \<and>
      karstAubagne pA < karstRoquevaire pR \<and>
      karstMarseille pM < karstAubagne pA"
    if "spec_peak_time karstStZacharie pZ" "spec_peak_time karstRoquevaire pR"
      "spec_peak_time karstAubagne pA" "spec_peak_time karstMarseille pM"
  proof -
    have eq: "pZ = 16" "pR = 35 / 2" "pA = 19" "pM = 21"
      using that by (simp_all only: karst_peak_times)
    show ?thesis
      unfolding eq by (simp add: karst_amplitudes)
  qed
  show ?thesis
    using samples order by (simp add: karst_peak_times)
qed

theorem karst_peaks_downstream_witness:
  "spec_peak_time karstStZacharie 16 \<and> spec_peak_time karstRoquevaire (35 / 2) \<and>
   spec_peak_time karstAubagne 19 \<and> spec_peak_time karstMarseille 21 \<and>
   karstStZacharie 16 = 1.2 \<and> karstRoquevaire (35 / 2) = 1.3 \<and>
   karstAubagne 19 = 0.9 \<and> karstMarseille 21 = 0.4 \<and>
   karstStZacharie 16 < karstRoquevaire (35 / 2) \<and> karstAubagne 19 < karstRoquevaire (35 / 2) \<and>
   karstMarseille 21 < karstAubagne 19"
proof -
  have pk: "spec_peak_time karstStZacharie 16" "spec_peak_time karstRoquevaire (35 / 2)"
    "spec_peak_time karstAubagne 19" "spec_peak_time karstMarseille 21"
    using karst_peaks_downstream [of 16 16 "35 / 2" 19 21]
      karst_peaks_downstream [of "35 / 2" 16 "35 / 2" 19 21]
      karst_peaks_downstream [of 19 16 "35 / 2" 19 21]
      karst_peaks_downstream [of 21 16 "35 / 2" 19 21]
    by simp_all
  then show ?thesis
    using karst_peaks_downstream [of 16 16 "35 / 2" 19 21] by simp
qed

end
